theory Spec2Isabelle
  imports Complex_Main "HOL-Library.Sublist"
begin

section \<open>Python values, exceptions and string helpers\<close>

text \<open>
  The two Lambda functions of the repository, \<^verbatim>\<open>status-checker.py\<close> and
  \<^verbatim>\<open>processor.py\<close>, are embedded as HOL functions over an explicit world
  (object storage, local files, the storage calls issued so far) and an
  environment that fixes how the services outside the code answer.  The
  \<^verbatim>\<open>print\<close> statements only write to the log and are left out.

  A Python \<^verbatim>\<open>str\<close> is a \<open>string\<close>, the list of its characters; the code only
  concatenates, replaces and compares strings, which is the same on bytes and on
  code points.  A JSON value or a Python dict literal is a \<open>pyval\<close>; a dict
  keeps the order of its keys, as Python does.
\<close>

datatype pyval =
    PNone
  | PBool bool
  | PInt int
  | PFloat real
  | PStr string
  | PList "pyval list"
  | PDict "(string \<times> pyval) list"

text \<open>
  Exceptions.  \<open>KeyError k\<close> is what \<^verbatim>\<open>event[k]\<close> raises for a missing key,
  \<open>UnboundLocalError v\<close> what reading a local variable \<open>v\<close> raises before any
  assignment to it has run, and \<open>Raised msg\<close> is any other exception, kept as
  the text \<^verbatim>\<open>str(e)\<close> gives for it (the storage client's and the operating
  system's errors, and the \<^verbatim>\<open>Exception(...)\<close> the code raises itself).
\<close>

datatype exn = KeyError string | UnboundLocalError string | Raised string

fun str_exn :: "exn \<Rightarrow> string" where
  "str_exn (KeyError k) = [CHR 0x27] @ k @ [CHR 0x27]"
| "str_exn (UnboundLocalError v) =
     ''cannot access local variable '' @ [CHR 0x27] @ v @ [CHR 0x27]
       @ '' where it is not associated with a value''"
| "str_exn (Raised msg) = msg"

text \<open>\<^verbatim>\<open>d.get(k, default)\<close> and \<^verbatim>\<open>d[k]\<close> on an entry that may be absent.\<close>

definition dict_get :: "'a option \<Rightarrow> 'a \<Rightarrow> 'a" where
  "dict_get v d = (case v of None \<Rightarrow> d | Some x \<Rightarrow> x)"

definition dict_index :: "string \<Rightarrow> 'a option \<Rightarrow> exn + 'a" where
  "dict_index k v = (case v of None \<Rightarrow> Inl (KeyError k) | Some x \<Rightarrow> Inr x)"

text \<open>Reading a local variable that an earlier statement may not have bound.\<close>

definition local_var :: "string \<Rightarrow> 'a option \<Rightarrow> exn + 'a" where
  "local_var name v = (case v of None \<Rightarrow> Inl (UnboundLocalError name) | Some x \<Rightarrow> Inr x)"

text \<open>
  \<^verbatim>\<open>s.replace(old, new)\<close>: every occurrence of \<open>old\<close> is replaced, scanning from
  the left and continuing after each replaced occurrence.  For an empty \<open>old\<close>
  Python puts \<open>new\<close> before every character and at the end.
\<close>

function py_replace :: "string \<Rightarrow> string \<Rightarrow> string \<Rightarrow> string" where
  "py_replace [] old new = (if old = [] then new else [])"
| "py_replace (c # cs) old new =
     (if old = [] then new @ c # py_replace cs old new
      else if prefix old (c # cs) then new @ py_replace (drop (length old) (c # cs)) old new
      else c # py_replace cs old new)"
  by pat_completeness auto
termination
  by (relation "measure (\<lambda>(s, old, new). length s)") (auto simp: neq_Nil_conv)

declare py_replace.simps [simp del]

text \<open>\<^verbatim>\<open>s.endswith(suffix)\<close>.\<close>

definition endswith :: "string \<Rightarrow> string \<Rightarrow> bool" where
  "endswith s suf \<longleftrightarrow> length suf \<le> length s \<and> drop (length s - length suf) s = suf"

text \<open>
  \<^verbatim>\<open>urllib.parse.unquote\<close>: each \<^verbatim>\<open>%XX\<close> with two hexadecimal digits becomes the
  byte \<open>XX\<close>; a \<^verbatim>\<open>%\<close> that is not followed by two hexadecimal digits stays.
  The library then reads the decoded bytes as UTF-8 and replaces malformed
  sequences by U+FFFD; on strings whose escapes decode to well-formed UTF-8
  (all ASCII escapes among them) that step changes nothing, and it is not
  part of this model.
\<close>

definition hexval :: "char \<Rightarrow> nat option" where
  "hexval c =
     (let n = (of_char c :: nat) in
      if 48 \<le> n \<and> n \<le> 57 then Some (n - 48)
      else if 65 \<le> n \<and> n \<le> 70 then Some (n - 55)
      else if 97 \<le> n \<and> n \<le> 102 then Some (n - 87)
      else None)"

fun unquote :: "string \<Rightarrow> string" where
  "unquote (p # a # b # cs) =
     (if p = CHR ''%'' then
        (case (hexval a, hexval b) of
           (Some x, Some y) \<Rightarrow> char_of (16 * x + y) # unquote cs
         | _ \<Rightarrow> p # unquote (a # b # cs))
      else p # unquote (a # b # cs))"
| "unquote cs = cs"

declare unquote.simps [simp del]

text \<open>\<^verbatim>\<open>str(n)\<close> for a natural number, and the format \<^verbatim>\<open>{n:,}\<close> that groups the
  digits in threes.\<close>

function str_nat :: "nat \<Rightarrow> string" where
  "str_nat n = (if n < 10 then [char_of (48 + n)] else str_nat (n div 10) @ [char_of (48 + n mod 10)])"
  by pat_completeness auto
termination
  by (relation "measure id") auto

declare str_nat.simps [simp del]

function group3 :: "string \<Rightarrow> string" where
  "group3 s =
     (if length s \<le> 3 then s
      else group3 (take (length s - 3) s) @ '','' @ drop (length s - 3) s)"
  by pat_completeness auto
termination
  by (relation "measure length") auto

declare group3.simps [simp del]

definition format_comma :: "nat \<Rightarrow> string" where
  "format_comma n = group3 (str_nat n)"

fun join_lines :: "string list \<Rightarrow> string" where
  "join_lines [] = []"
| "join_lines [l] = l"
| "join_lines (l # ls) = l @ CHR 0x0A # join_lines ls"

section \<open>Requests, storage and the environment\<close>

text \<open>
  The request payload (section 6 of the specification): every entry may be
  absent; the entries the interface declares as strings are strings, and
  \<open>conversionOptions\<close> is a JSON value.  The invocation context carries the
  request id.
\<close>

record event =
  jobId :: "string option"
  inputS3Bucket :: "string option"
  inputS3Key :: "string option"
  outputS3Bucket :: "string option"
  outputS3Prefix :: "string option"
  conversionOptions :: "pyval option"

record lambda_context =
  aws_request_id :: string

type_synonym response = "(string \<times> pyval) list"

text \<open>The keyword arguments of \<^verbatim>\<open>put_object\<close>; a stored object is what was put.\<close>

record put_request =
  Bucket :: string
  Key :: string
  Body :: string
  ContentType :: string
  Metadata :: "(string \<times> string) list"

type_synonym storage = "string \<times> string \<Rightarrow> put_request option"

datatype s3_call =
    ListObjectsV2 string string
  | DownloadFile string string string
  | PutObject put_request

text \<open>
  The world a handler runs in: the objects in storage by bucket and key, the
  local files by path, and the storage calls issued so far, oldest first.
\<close>

record world =
  storage :: storage
  files :: "string \<Rightarrow> string option"
  calls :: "s3_call list"

text \<open>
  What the code cannot decide is fixed by the environment: whether
  \<^verbatim>\<open>boto3.client('s3')\<close> raises (and with what text), what the listing of a
  bucket under a prefix returns for a given storage (an error text, or the
  response, whose \<^verbatim>\<open>Contents\<close> entry may be absent and otherwise holds the keys
  in the order listed), which downloads and uploads fail for reasons other
  than a missing object, which path \<^verbatim>\<open>NamedTemporaryFile\<close> creates, whether
  \<^verbatim>\<open>os.unlink\<close> fails, and the text \<^verbatim>\<open>json.dumps(v, indent=2)\<close> gives.
\<close>

record env =
  boto3_client :: "string option"
  list_objects_v2 :: "storage \<Rightarrow> string \<Rightarrow> string \<Rightarrow> string + string list option"
  download_fault :: "string \<Rightarrow> string \<Rightarrow> string option"
  put_fault :: "put_request \<Rightarrow> string option"
  named_temporary_file :: "(string \<Rightarrow> string option) \<Rightarrow> string + string"
  unlink_fault :: "string \<Rightarrow> bool"
  json_dumps :: "pyval \<Rightarrow> string"

text \<open>
  \<^verbatim>\<open>s3_client.download_file(bucket, key, path)\<close>: the call is recorded; it fails
  when the environment says so or when the object is missing, and otherwise
  writes the object's body to the local path.
\<close>

definition download_file :: "env \<Rightarrow> string \<Rightarrow> string \<Rightarrow> string \<Rightarrow> world \<Rightarrow> (exn + unit) \<times> world" where
  "download_file e bucket key path w =
     (let w' = w\<lparr>calls := calls w @ [DownloadFile bucket key path]\<rparr> in
      case download_fault e bucket key of
        Some msg \<Rightarrow> (Inl (Raised msg), w')
      | None \<Rightarrow>
          (case storage w (bucket, key) of
             None \<Rightarrow>
               (Inl (Raised ''An error occurred (404) when calling the HeadObject operation: Not Found''), w')
           | Some obj \<Rightarrow> (Inr (), w'\<lparr>files := (files w')(path \<mapsto> Body obj)\<rparr>)))"

text \<open>\<^verbatim>\<open>os.path.getsize(path)\<close>.\<close>

definition getsize :: "world \<Rightarrow> string \<Rightarrow> exn + nat" where
  "getsize w path =
     (case files w path of
        None \<Rightarrow> Inl (Raised (''[Errno 2] No such file or directory: '' @ [CHR 0x27] @ path @ [CHR 0x27]))
      | Some content \<Rightarrow> Inr (length content))"

text \<open>\<^verbatim>\<open>s3_client.put_object(...)\<close>: recorded; on success the object is stored
  under its bucket and key, replacing what was there.\<close>

definition put_object :: "env \<Rightarrow> put_request \<Rightarrow> world \<Rightarrow> (exn + unit) \<times> world" where
  "put_object e req w =
     (let w' = w\<lparr>calls := calls w @ [PutObject req]\<rparr> in
      case put_fault e req of
        Some msg \<Rightarrow> (Inl (Raised msg), w')
      | None \<Rightarrow> (Inr (), w'\<lparr>storage := (storage w')((Bucket req, Key req) \<mapsto> req)\<rparr>))"

text \<open>\<^verbatim>\<open>os.unlink(path)\<close> inside \<^verbatim>\<open>try: ... except: pass\<close>: a failure changes
  nothing and is not reported.\<close>

definition unlink_quietly :: "env \<Rightarrow> string \<Rightarrow> world \<Rightarrow> world" where
  "unlink_quietly e path w =
     (if unlink_fault e path then w else w\<lparr>files := (files w)(path := None)\<rparr>)"

section \<open>The status handler (status-checker.py)\<close>

text \<open>
  The \<^verbatim>\<open>except Exception as e\<close> clause.  It reads the locals \<open>job_id\<close>,
  \<open>output_bucket\<close> and \<open>output_prefix\<close>; \<open>job_id\<close> is bound by the first
  statement of the \<^verbatim>\<open>try\<close> block, which cannot raise, the other two only if
  the block got past their assignments.  The f-string reads \<open>output_bucket\<close>
  first.  An exception raised here leaves the handler.
\<close>

definition status_except ::
  "exn \<Rightarrow> string \<Rightarrow> string option \<Rightarrow> string option \<Rightarrow> exn + response" where
  "status_except e job_id output_bucket output_prefix =
     (let error_message = str_exn e in
      case local_var ''output_bucket'' output_bucket of
        Inl x \<Rightarrow> Inl x
      | Inr bucket \<Rightarrow>
          (case local_var ''output_prefix'' output_prefix of
             Inl x \<Rightarrow> Inl x
           | Inr pre \<Rightarrow>
               Inr [(''jobId'', PStr job_id),
                    (''status'', PStr ''FAILED''),
                    (''error'', PStr error_message),
                    (''outputLocation'', PStr (''s3://'' @ bucket @ ''/'' @ pre @ job_id @ ''/''))]))"

text \<open>
  The classification of a successful listing: the relative names and the
  status.  \<^verbatim>\<open>Contents\<close> absent gives no names and \<open>IN_PROGRESS\<close>.
\<close>

definition classify :: "string \<Rightarrow> string list option \<Rightarrow> string list \<times> string" where
  "classify job_output_prefix contents =
     (case contents of
        None \<Rightarrow> ([], ''IN_PROGRESS'')
      | Some keys \<Rightarrow>
          (let files_found = map (\<lambda>k. py_replace k job_output_prefix '''') keys;
               html_files = filter (\<lambda>f. endswith f ''.html'') files_found
           in (files_found, if html_files \<noteq> [] then ''COMPLETED'' else ''IN_PROGRESS'')))"

definition status_lambda_handler :: "env \<Rightarrow> event \<Rightarrow> world \<Rightarrow> (exn + response) \<times> world" where
  "status_lambda_handler e ev w =
     (let job_id = dict_get (jobId ev) ''unknown'' in
      case dict_index ''outputS3Bucket'' (outputS3Bucket ev) of
        Inl x \<Rightarrow> (status_except x job_id None None, w)
      | Inr output_bucket \<Rightarrow>
          (let output_prefix = dict_get (outputS3Prefix ev) ''converted/'';
               job_output_prefix = output_prefix @ job_id @ ''/''
           in case boto3_client e of
                Some msg \<Rightarrow>
                  (status_except (Raised msg) job_id (Some output_bucket) (Some output_prefix), w)
              | None \<Rightarrow>
                  (let w' = w\<lparr>calls := calls w @ [ListObjectsV2 output_bucket job_output_prefix]\<rparr>
                   in case list_objects_v2 e (storage w) output_bucket job_output_prefix of
                        Inl msg \<Rightarrow>
                          (status_except (Raised msg) job_id (Some output_bucket) (Some output_prefix), w')
                      | Inr contents \<Rightarrow>
                          (let (files_found, status) = classify job_output_prefix contents
                           in (Inr [(''jobId'', PStr job_id),
                                    (''status'', PStr status),
                                    (''outputLocation'',
                                       PStr (''s3://'' @ output_bucket @ ''/'' @ job_output_prefix)),
                                    (''filesFound'', PList (map PStr files_found))],
                               w')))))"

section \<open>The conversion handler (processor.py)\<close>

text \<open>
  \<^verbatim>\<open>create_html_content\<close>: the f-string template, line by line.  \<open>dumps\<close> is
  \<^verbatim>\<open>json.dumps(., indent=2)\<close>.
\<close>

definition create_html_content ::
  \<open>(pyval \<Rightarrow> string) \<Rightarrow> string \<Rightarrow> string \<Rightarrow> string \<Rightarrow> nat \<Rightarrow> pyval \<Rightarrow> string \<Rightarrow> string\<close> where
  \<open>create_html_content dumps job_id input_key input_bucket pdf_size conversion_options request_id =
     join_lines
       [
        ''<!DOCTYPE html>'',
        ''<html lang="en">'',
        ''<head>'',
        ''    <meta charset="UTF-8">'',
        ''    <meta name="viewport" content="width=device-width, initial-scale=1.0">'',
        ''    <title>Converted PDF Document</title>'',
        ''    <style>'',
        ''        body { font-family: Arial, sans-serif; max-width: 800px; margin: 0 auto; padding: 20px; line-height: 1.6; }'',
        ''        .conversion-info { background-color: #f0f8ff; border: 1px solid #0066cc; border-radius: 5px; padding: 15px; margin-bottom: 20px; }'',
        ''        .metadata { background-color: #f9f9f9; border-left: 4px solid #ccc; padding: 10px 15px; margin: 10px 0; }'',
        ''    </style>'',
        ''</head>'',
        ''<body>'',
        ''    <div class="conversion-info">'',
        ''        <h1>PDF to HTML Conversion Result</h1>'',
        ''        <p><strong>Job ID:</strong> '' @ job_id @ ''</p>'',
        ''        <p><strong>Original File:</strong> '' @ input_key @ ''</p>'',
        ''        <p><strong>Request ID:</strong> '' @ request_id @ ''</p>'',
        ''    </div>'',
        ''    '',
        ''    <div class="metadata">'',
        ''        <h2>Document Metadata</h2>'',
        ''        <ul>'',
        ''            <li><strong>Source:</strong> s3://'' @ input_bucket @ ''/'' @ input_key @ ''</li>'',
        ''            <li><strong>File Size:</strong> '' @ format_comma pdf_size @ '' bytes</li>'',
        ''            <li><strong>Processing Options:</strong> '' @ dumps conversion_options @ ''</li>'',
        ''        </ul>'',
        ''    </div>'',
        ''    '',
        ''    <div class="content">'',
        ''        <h2>Document Content</h2>'',
        ''        <p><em>This is a Step Function workflow demonstration. The actual implementation would integrate with the content accessibility utility'' @ [CHR 0x27] @ ''s PDF to HTML conversion capabilities.</em></p>'',
        ''        '',
        ''        <p>In a full implementation, this would:</p>'',
        ''        <ul>'',
        ''            <li>Use AWS Bedrock Data Automation (BDA) for PDF parsing</li>'',
        ''            <li>Extract text, images, and structure from the PDF</li>'',
        ''            <li>Generate accessible HTML with proper semantic markup</li>'',
        ''            <li>Include extracted images with appropriate alt text</li>'',
        ''            <li>Preserve document layout and formatting</li>'',
        ''        </ul>'',
        ''    </div>'',
        ''</body>'',
        ''</html>''
       ]\<close>

text \<open>
  The \<^verbatim>\<open>except Exception as e\<close> clause of the handler.  It reads the local
  \<open>job_id\<close>, bound by the first statement of the \<^verbatim>\<open>try\<close> block, and the
  request itself, through \<^verbatim>\<open>event.get\<close> with the empty string as default.
\<close>

definition processor_except :: "exn \<Rightarrow> string \<Rightarrow> event \<Rightarrow> response" where
  "processor_except x job_id ev =
     (let error_message = str_exn x in
      [(''jobId'', PStr job_id),
       (''status'', PStr ''FAILED''),
       (''error'', PStr error_message),
       (''inputLocation'',
          PStr (''s3://'' @ dict_get (inputS3Bucket ev) '''' @ ''/'' @ dict_get (inputS3Key ev) ''''))])"

text \<open>
  The inner \<^verbatim>\<open>try\<close> block (lines 27 to 32): download the object to the
  temporary path and take the file's size; any exception is raised again as
  \<^verbatim>\<open>Exception("Failed to download PDF: " + str(e))\<close>.
\<close>

definition download_pdf :: "env \<Rightarrow> string \<Rightarrow> string \<Rightarrow> string \<Rightarrow> world \<Rightarrow> (exn + nat) \<times> world" where
  "download_pdf e input_bucket input_key path w =
     (case download_file e input_bucket input_key path w of
        (Inl x, w') \<Rightarrow> (Inl (Raised (''Failed to download PDF: '' @ str_exn x)), w')
      | (Inr _, w') \<Rightarrow>
          (case getsize w' path of
             Inl x \<Rightarrow> (Inl (Raised (''Failed to download PDF: '' @ str_exn x)), w')
           | Inr pdf_size \<Rightarrow> (Inr pdf_size, w')))"

text \<open>
  Lines 34 to 80: build the document, upload it, remove the temporary file,
  answer.  An exception of the upload goes to the handler's \<^verbatim>\<open>except\<close>
  clause, which is reached before the line that removes the temporary file.
\<close>

definition convert_and_upload ::
  "env \<Rightarrow> event \<Rightarrow> lambda_context \<Rightarrow> string \<Rightarrow> string \<Rightarrow> string \<Rightarrow> string \<Rightarrow> string \<Rightarrow> pyval
     \<Rightarrow> string \<Rightarrow> nat \<Rightarrow> world \<Rightarrow> (exn + response) \<times> world" where
  "convert_and_upload e ev ctx job_id input_bucket input_key output_bucket output_prefix
       conversion_options temp_pdf pdf_size w =
     (let html_content =
            create_html_content (json_dumps e) job_id input_key input_bucket pdf_size
              conversion_options (aws_request_id ctx);
          output_key = output_prefix @ job_id @ ''/converted.html'';
          req = \<lparr>Bucket = output_bucket, Key = output_key, Body = html_content,
                 ContentType = ''text/html'',
                 Metadata = [(''job-id'', job_id),
                             (''source-bucket'', input_bucket),
                             (''source-key'', input_key),
                             (''conversion-timestamp'', aws_request_id ctx)]\<rparr>
      in case put_object e req w of
           (Inl x, w') \<Rightarrow> (Inr (processor_except x job_id ev), w')
         | (Inr _, w') \<Rightarrow>
             (let conversion_result =
                    PDict [(''html_path'', PStr (''s3://'' @ output_bucket @ ''/'' @ output_key)),
                           (''output_files'', PList [PStr output_key]),
                           (''pdf_pages'', PInt 1),
                           (''images_extracted'', PInt 0),
                           (''processing_time_seconds'', PFloat 1)];
                  output_location = ''s3://'' @ output_bucket @ ''/'' @ output_prefix @ job_id @ ''/'';
                  w'' = unlink_quietly e temp_pdf w'
              in (Inr [(''jobId'', PStr job_id),
                       (''status'', PStr ''COMPLETED''),
                       (''outputLocation'', PStr output_location),
                       (''conversionResult'', conversion_result),
                       (''inputLocation'', PStr (''s3://'' @ input_bucket @ ''/'' @ input_key))],
                  w'')))"

text \<open>
  The handler.  \<^verbatim>\<open>NamedTemporaryFile(suffix='.pdf', delete=False)\<close> creates an
  empty file at the path the environment chooses; leaving the \<^verbatim>\<open>with\<close> block
  closes the file and, with \<^verbatim>\<open>delete=False\<close>, keeps it.
\<close>

definition processor_lambda_handler ::
  "env \<Rightarrow> event \<Rightarrow> lambda_context \<Rightarrow> world \<Rightarrow> (exn + response) \<times> world" where
  "processor_lambda_handler e ev ctx w =
     (let job_id = dict_get (jobId ev) (''job-'' @ aws_request_id ctx) in
      case dict_index ''inputS3Bucket'' (inputS3Bucket ev) of
        Inl x \<Rightarrow> (Inr (processor_except x job_id ev), w)
      | Inr input_bucket \<Rightarrow>
      (case dict_index ''inputS3Key'' (inputS3Key ev) of
        Inl x \<Rightarrow> (Inr (processor_except x job_id ev), w)
      | Inr raw_key \<Rightarrow>
      (let input_key = unquote raw_key in
       case dict_index ''outputS3Bucket'' (outputS3Bucket ev) of
        Inl x \<Rightarrow> (Inr (processor_except x job_id ev), w)
      | Inr output_bucket \<Rightarrow>
      (let output_prefix = dict_get (outputS3Prefix ev) ''converted/'';
           conversion_options = dict_get (conversionOptions ev) (PDict [])
       in case boto3_client e of
            Some msg \<Rightarrow> (Inr (processor_except (Raised msg) job_id ev), w)
          | None \<Rightarrow>
          (case named_temporary_file e (files w) of
            Inl msg \<Rightarrow> (Inr (processor_except (Raised msg) job_id ev), w)
          | Inr temp_pdf \<Rightarrow>
          (case download_pdf e input_bucket input_key temp_pdf
                  (w\<lparr>files := (files w)(temp_pdf \<mapsto> '''')\<rparr>) of
            (Inl x, w') \<Rightarrow> (Inr (processor_except x job_id ev), w')
          | (Inr pdf_size, w') \<Rightarrow>
              convert_and_upload e ev ctx job_id input_bucket input_key output_bucket
                output_prefix conversion_options temp_pdf pdf_size w'))))))"

section \<open>Concrete requests and environments\<close>

text \<open>
  A request for job \<open>job1\<close>, an environment in which nothing fails and the
  listing returns a given response, and two worlds: an empty one, and one that
  holds the input object of the conversion request.  \<open>is_write\<close> tells the
  storage calls that change storage.
\<close>

definition demo_env :: "string list option \<Rightarrow> env" where
  "demo_env contents =
     \<lparr>boto3_client = None,
      list_objects_v2 = (\<lambda>st bucket pre. Inr contents),
      download_fault = (\<lambda>bucket key. None),
      put_fault = (\<lambda>req. None),
      named_temporary_file = (\<lambda>fs. Inr ''/tmp/tmpk3x9.pdf''),
      unlink_fault = (\<lambda>path. False),
      json_dumps = (\<lambda>v. ''{}'')\<rparr>"

definition status_event :: event where
  "status_event =
     \<lparr>jobId = Some ''job1'', inputS3Bucket = None, inputS3Key = None,
      outputS3Bucket = Some ''out'', outputS3Prefix = None, conversionOptions = None\<rparr>"

definition conversion_event :: event where
  "conversion_event =
     \<lparr>jobId = Some ''job1'', inputS3Bucket = Some ''in'', inputS3Key = Some ''a%20b.pdf'',
      outputS3Bucket = Some ''out'', outputS3Prefix = None, conversionOptions = None\<rparr>"

definition demo_context :: lambda_context where
  "demo_context = \<lparr>aws_request_id = ''req-1''\<rparr>"

definition empty_world :: world where
  "empty_world = \<lparr>storage = (\<lambda>k. None), files = (\<lambda>p. None), calls = []\<rparr>"

definition pdf_object :: put_request where
  "pdf_object =
     \<lparr>Bucket = ''in'', Key = ''a b.pdf'', Body = ''%PDF-1.4'',
      ContentType = ''application/pdf'', Metadata = []\<rparr>"

definition stocked_world :: world where
  "stocked_world = empty_world\<lparr>storage := (storage empty_world)((''in'', ''a b.pdf'') \<mapsto> pdf_object)\<rparr>"

definition is_write :: "s3_call \<Rightarrow> bool" where
  "is_write c = (case c of PutObject req \<Rightarrow> True | _ \<Rightarrow> False)"

text \<open>The source key a storage call works on: the key a download reads, and the
  \<open>source-key\<close> entry of the metadata an upload attaches.\<close>

definition source_key :: "s3_call \<Rightarrow> string option" where
  "source_key c =
     (case c of
        ListObjectsV2 bucket pre \<Rightarrow> None
      | DownloadFile bucket key path \<Rightarrow> Some key
      | PutObject req \<Rightarrow> map_of (Metadata req) ''source-key'')"

section \<open>Auxiliary facts\<close>

text \<open>Sample values of the string helpers, as Python computes them.\<close>

lemma py_replace_examples:
  "py_replace ''abc'' [] ''x'' = ''xaxbxcx''"
  "py_replace ''aaa'' ''aa'' ''b'' = ''ba''"
  "py_replace ''converted/job1/log.txt'' ''converted/job1/'' [] = ''log.txt''"
  by code_simp+

lemma unquote_examples:
  "unquote ''plain.pdf'' = ''plain.pdf''"
  "unquote ''a%2Fb%2fc'' = ''a/b/c''"
  "unquote ''100%'' = ''100%''"
  "unquote ''%zz%4'' = ''%zz%4''"
  "unquote ''%%20'' = ''% ''"
  by code_simp+

lemma format_comma_examples:
  "format_comma 7 = ''7''"
  "format_comma 1000 = ''1,000''"
  "format_comma 1234567 = ''1,234,567''"
  by (simp_all add: format_comma_def str_nat.simps group3.simps char_of_eq_iff)

lemma py_replace_self: "old \<noteq> [] \<Longrightarrow> py_replace old old [] = []"
  by (cases old) (simp_all add: py_replace.simps)

lemma unquote_demo_key: "unquote ''a%20b.pdf'' = ''a b.pdf''"
  by code_simp

text \<open>
  Replacing by the empty string leaves a string without an occurrence as it
  is, and leaves of a string that starts with the old string, and holds it
  nowhere after that, the rest.
\<close>

lemma py_replace_no_occurrence:
  "old \<noteq> [] \<Longrightarrow> \<not> sublist old s \<Longrightarrow> py_replace s old [] = s"
proof (induction s)
  case Nil
  then show ?case by (simp add: py_replace.simps)
next
  case (Cons c cs)
  from Cons.prems(2) have np: "\<not> prefix old (c # cs)" and ns: "\<not> sublist old cs"
    by (auto simp: sublist_Cons_right)
  with Cons.IH [OF Cons.prems(1)] Cons.prems(1) show ?case
    by (simp add: py_replace.simps)
qed

lemma py_replace_leading_prefix:
  assumes ne: "old \<noteq> []" and pre: "prefix old k" and once: "\<not> sublist old (drop (length old) k)"
  shows "py_replace k old [] = drop (length old) k"
proof -
  from pre obtain r where k: "k = old @ r" by (auto simp: prefix_def)
  from ne obtain c cs where old: "old = c # cs" by (cases old) auto
  have "py_replace (old @ r) old [] = py_replace r old []"
    unfolding old by (simp add: py_replace.simps)
  also have "\<dots> = r" using once ne by (simp add: k py_replace_no_occurrence)
  finally show ?thesis by (simp add: k)
qed

lemma replace_split_suffix:
  "py_replace ''converted/job1/x.htconverted/job1/ml'' ''converted/job1/'' [] = ''x.html''"
  by code_simp

lemma no_prefix_in_converted_html: "\<not> sublist ''converted/job1/'' ''converted.html''"
  by code_simp

lemma replace_nested_prefix:
  "py_replace ''converted/job1/converted/job1/a.html'' ''converted/job1/'' [] = ''a.html''"
  by code_simp

text \<open>
  The run of the conversion handler when every step succeeds: the response,
  and what the world holds afterwards.
\<close>

lemma processor_success_run:
  fixes e ev ctx w ib k ob p obj
  defines "job_id \<equiv> dict_get (jobId ev) (''job-'' @ aws_request_id ctx)"
  defines "pre \<equiv> dict_get (outputS3Prefix ev) ''converted/''"
  defines "req \<equiv>
     \<lparr>Bucket = ob, Key = pre @ job_id @ ''/converted.html'',
      Body = create_html_content (json_dumps e) job_id (unquote k) ib (length (Body obj))
               (dict_get (conversionOptions ev) (PDict [])) (aws_request_id ctx),
      ContentType = ''text/html'',
      Metadata = [(''job-id'', job_id), (''source-bucket'', ib), (''source-key'', unquote k),
                  (''conversion-timestamp'', aws_request_id ctx)]\<rparr>"
  assumes ib: "inputS3Bucket ev = Some ib" and key: "inputS3Key ev = Some k"
    and ob: "outputS3Bucket ev = Some ob" and client: "boto3_client e = None"
    and tmp: "named_temporary_file e (files w) = Inr p"
    and dl: "download_fault e ib (unquote k) = None"
    and obj: "storage w (ib, unquote k) = Some obj"
    and put: "put_fault e req = None"
  shows "\<exists>w'. processor_lambda_handler e ev ctx w =
           (Inr [(''jobId'', PStr job_id),
                 (''status'', PStr ''COMPLETED''),
                 (''outputLocation'', PStr (''s3://'' @ ob @ ''/'' @ pre @ job_id @ ''/'')),
                 (''conversionResult'',
                    PDict [(''html_path'', PStr (''s3://'' @ ob @ ''/'' @ pre @ job_id @ ''/converted.html'')),
                           (''output_files'', PList [PStr (pre @ job_id @ ''/converted.html'')]),
                           (''pdf_pages'', PInt 1),
                           (''images_extracted'', PInt 0),
                           (''processing_time_seconds'', PFloat 1)]),
                 (''inputLocation'', PStr (''s3://'' @ ib @ ''/'' @ unquote k))], w')
         \<and> storage w' = (storage w)((ob, pre @ job_id @ ''/converted.html'') \<mapsto> req)
         \<and> calls w' = calls w @ [DownloadFile ib (unquote k) p, PutObject req]
         \<and> files w' = (if unlink_fault e p then (files w)(p \<mapsto> Body obj) else (files w)(p := None))"
  using ib key ob client tmp dl obj put
  unfolding job_id_def pre_def req_def
  by (simp add: processor_lambda_handler_def dict_index_def download_pdf_def download_file_def
      getsize_def convert_and_upload_def put_object_def unlink_quietly_def Let_def)

text \<open>A \<open>FAILED\<close> response of the conversion handler comes from its \<^verbatim>\<open>except\<close> clause.\<close>

lemma processor_failed_response:
  assumes "fst (processor_lambda_handler e ev ctx w) = Inr resp"
    and "map_of resp ''status'' = Some (PStr ''FAILED'')"
  shows "\<exists>x. resp = processor_except x (dict_get (jobId ev) (''job-'' @ aws_request_id ctx)) ev"
  using assms
  by (auto simp: processor_lambda_handler_def dict_index_def download_pdf_def
      convert_and_upload_def Let_def
      split: sum.splits option.splits prod.splits)

text \<open>Every storage call the conversion handler adds works on the decoded key.\<close>

lemma processor_new_calls:
  assumes key: "inputS3Key ev = Some k"
  shows "\<exists>cs. calls (snd (processor_lambda_handler e ev ctx w)) = calls w @ cs
           \<and> (\<forall>c \<in> set cs. source_key c = Some (unquote k))"
  using key
  by (auto simp: processor_lambda_handler_def dict_index_def download_pdf_def download_file_def
      getsize_def convert_and_upload_def put_object_def unlink_quietly_def source_key_def Let_def
      split: sum.splits option.splits prod.splits)

lemma processor_completed_location:
  assumes "fst (processor_lambda_handler e ev ctx w) = Inr resp"
    and "map_of resp ''status'' = Some (PStr ''COMPLETED'')"
    and "inputS3Key ev = Some k"
  shows "map_of resp ''inputLocation'' =
            Some (PStr (''s3://'' @ dict_get (inputS3Bucket ev) [] @ ''/'' @ unquote k))"
  using assms
  by (auto simp: processor_lambda_handler_def dict_index_def download_pdf_def
      convert_and_upload_def processor_except_def Let_def dict_get_def
      split: sum.splits option.splits prod.splits)

text \<open>The conversion request for \<open>a%20b.pdf\<close>, run where the object exists and where it
  does not.\<close>

lemma demo_success_run:
  "\<exists>w'. processor_lambda_handler (demo_env None) conversion_event demo_context stocked_world
      = (Inr [(''jobId'', PStr ''job1''),
              (''status'', PStr ''COMPLETED''),
              (''outputLocation'', PStr ''s3://out/converted/job1/''),
              (''conversionResult'',
                 PDict [(''html_path'', PStr ''s3://out/converted/job1/converted.html''),
                        (''output_files'', PList [PStr ''converted/job1/converted.html'']),
                        (''pdf_pages'', PInt 1),
                        (''images_extracted'', PInt 0),
                        (''processing_time_seconds'', PFloat 1)]),
              (''inputLocation'', PStr ''s3://in/a b.pdf'')], w')
     \<and> map source_key (calls w') = [Some ''a b.pdf'', Some ''a b.pdf'']
     \<and> files w' ''/tmp/tmpk3x9.pdf'' = None"
  using processor_success_run [where ev = conversion_event and e = "demo_env None"
      and ctx = demo_context and w = stocked_world and ib = "''in''" and k = "''a%20b.pdf''"
      and ob = "''out''" and p = "''/tmp/tmpk3x9.pdf''" and obj = pdf_object]
  by (auto simp: conversion_event_def demo_env_def demo_context_def stocked_world_def
      empty_world_def dict_get_def unquote_demo_key source_key_def)

lemma demo_failed_run:
  "processor_lambda_handler (demo_env None) conversion_event demo_context empty_world
     = (Inr [(''jobId'', PStr ''job1''),
             (''status'', PStr ''FAILED''),
             (''error'', PStr ''Failed to download PDF: An error occurred (404) when calling the HeadObject operation: Not Found''),
             (''inputLocation'', PStr ''s3://in/a%20b.pdf'')],
        empty_world\<lparr>files := (files empty_world)(''/tmp/tmpk3x9.pdf'' \<mapsto> []),
                     calls := [DownloadFile ''in'' ''a b.pdf'' ''/tmp/tmpk3x9.pdf'']\<rparr>)"
  by (simp add: processor_lambda_handler_def conversion_event_def demo_env_def demo_context_def
      empty_world_def dict_get_def dict_index_def unquote_demo_key download_pdf_def
      download_file_def processor_except_def Let_def)

section \<open>The status handler: results\<close>

text \<open>
  The classification of a successful listing, over the names the handler
  computes with \<^verbatim>\<open>replace\<close>: no key listed gives \<open>IN_PROGRESS\<close>, keys listed
  but no computed name ending in \<open>.html\<close> gives \<open>IN_PROGRESS\<close>, a computed
  name ending in \<open>.html\<close> gives \<open>COMPLETED\<close>.
\<close>

lemma status_classification_computed:
  fixes e ev w b contents
  defines "pre \<equiv> dict_get (outputS3Prefix ev) ''converted/'' @ dict_get (jobId ev) ''unknown'' @ ''/''"
  defines "keys \<equiv> (case contents of None \<Rightarrow> [] | Some ks \<Rightarrow> ks)"
  defines "rel \<equiv> map (\<lambda>k. py_replace k pre []) keys"
  assumes bucket: "outputS3Bucket ev = Some b"
    and client: "boto3_client e = None"
    and listing: "list_objects_v2 e (storage w) b pre = Inr contents"
  shows "\<exists>resp. fst (status_lambda_handler e ev w) = Inr resp
           \<and> map_of resp ''filesFound'' = Some (PList (map PStr rel))
           \<and> map_of resp ''status'' =
               Some (PStr (if keys = [] then ''IN_PROGRESS''
                           else if \<exists>f \<in> set rel. endswith f ''.html'' then ''COMPLETED''
                           else ''IN_PROGRESS''))
           \<and> (rel = [] \<longleftrightarrow> keys = [])"
proof -
  have cl: "classify pre contents =
      (rel, if \<exists>f \<in> set rel. endswith f ''.html'' then ''COMPLETED'' else ''IN_PROGRESS'')"
    by (cases contents) (auto simp: classify_def rel_def keys_def filter_empty_conv Let_def)
  have "keys = [] \<Longrightarrow> rel = []" by (simp add: rel_def)
  then show ?thesis
    using bucket client listing cl
    by (auto simp: status_lambda_handler_def dict_index_def Let_def pre_def[symmetric] rel_def)
qed

text \<open>
  Claim C3 (what the code does at a key in which the job prefix recurs).  For
  job \<open>job1\<close> the listing returns the one key
  \<open>converted/job1/x.htconverted/job1/ml\<close>.  Its relative name under the prefix
  is \<open>x.htconverted/job1/ml\<close>; neither the key nor the relative name ends in
  \<open>.html\<close>, so the classification asks for \<open>IN_PROGRESS\<close>.  The handler
  computes the name with \<^verbatim>\<open>replace\<close>, which removes the inner occurrence of
  the prefix as well, gets \<open>x.html\<close> and answers \<open>COMPLETED\<close>.
\<close>

theorem status_completed_without_html_name:
  "fst (status_lambda_handler (demo_env (Some [''converted/job1/x.htconverted/job1/ml'']))
          status_event empty_world)
     = Inr [(''jobId'', PStr ''job1''),
            (''status'', PStr ''COMPLETED''),
            (''outputLocation'', PStr ''s3://out/converted/job1/''),
            (''filesFound'', PList [PStr ''x.html''])]
   \<and> drop (length ''converted/job1/'') ''converted/job1/x.htconverted/job1/ml''
       = ''x.htconverted/job1/ml''
   \<and> \<not> endswith ''x.htconverted/job1/ml'' ''.html''
   \<and> \<not> endswith ''converted/job1/x.htconverted/job1/ml'' ''.html''"
  by (simp add: status_lambda_handler_def demo_env_def status_event_def empty_world_def
      dict_get_def dict_index_def classify_def endswith_def Let_def replace_split_suffix)

text \<open>
  Where every listed key starts with the job prefix and the prefix does not
  occur again in the rest of the key, the computed names are the relative
  names, the keys without their leading prefix, and the three cases hold over
  them: no object gives \<open>IN_PROGRESS\<close>; objects but no relative name ending
  in \<open>.html\<close> gives \<open>IN_PROGRESS\<close>; a relative name ending in \<open>.html\<close> gives
  \<open>COMPLETED\<close>; and \<open>filesFound\<close> is empty exactly when no object was listed.
\<close>

theorem status_classification_prefix_once:
  fixes e ev w b contents
  defines "pre \<equiv> dict_get (outputS3Prefix ev) ''converted/'' @ dict_get (jobId ev) ''unknown'' @ ''/''"
  defines "keys \<equiv> (case contents of None \<Rightarrow> [] | Some ks \<Rightarrow> ks)"
  defines "rel \<equiv> map (drop (length pre)) keys"
  assumes bucket: "outputS3Bucket ev = Some b"
    and client: "boto3_client e = None"
    and listing: "list_objects_v2 e (storage w) b pre = Inr contents"
    and once: "\<forall>k \<in> set keys. prefix pre k \<and> \<not> sublist pre (drop (length pre) k)"
  shows "\<exists>resp. fst (status_lambda_handler e ev w) = Inr resp
           \<and> map_of resp ''filesFound'' = Some (PList (map PStr rel))
           \<and> map_of resp ''status'' =
               Some (PStr (if keys = [] then ''IN_PROGRESS''
                           else if \<exists>f \<in> set rel. endswith f ''.html'' then ''COMPLETED''
                           else ''IN_PROGRESS''))
           \<and> (rel = [] \<longleftrightarrow> keys = [])"
proof -
  have ne: "pre \<noteq> []" by (simp add: pre_def)
  have eq: "map (\<lambda>k. py_replace k pre []) keys = rel"
    unfolding rel_def using once ne by (auto intro: py_replace_leading_prefix)
  note computed = status_classification_computed [OF bucket client listing [unfolded pre_def],
      folded pre_def, folded keys_def]
  show ?thesis
    using computed unfolding eq .
qed

text \<open>
  The prefix of job \<open>job1\<close> holds \<open>converted/job1/converted.html\<close>: the handler
  answers \<open>COMPLETED\<close> with \<open>filesFound = ["converted.html"]\<close>.
\<close>

theorem status_classification_prefix_once_witness:
  "outputS3Bucket status_event = Some ''out''
   \<and> prefix ''converted/job1/'' ''converted/job1/converted.html''
   \<and> \<not> sublist ''converted/job1/'' (drop (length ''converted/job1/'') ''converted/job1/converted.html'')
   \<and> (\<exists>resp. fst (status_lambda_handler (demo_env (Some [''converted/job1/converted.html'']))
                  status_event empty_world) = Inr resp
          \<and> map_of resp ''filesFound'' = Some (PList [PStr ''converted.html''])
          \<and> map_of resp ''status'' = Some (PStr ''COMPLETED''))"
  using status_classification_prefix_once [where ev = status_event and b = "''out''"
      and e = "demo_env (Some [''converted/job1/converted.html''])" and w = empty_world
      and contents = "Some [''converted/job1/converted.html'']"]
  by (auto simp: demo_env_def status_event_def empty_world_def dict_get_def endswith_def
      no_prefix_in_converted_html)

text \<open>
  Claim C1 (what the code does at a request without \<open>outputS3Bucket\<close>).
  \<^verbatim>\<open>event['outputS3Bucket']\<close> raises \<open>KeyError\<close> before \<open>output_bucket\<close> and
  \<open>output_prefix\<close> are assigned; the \<^verbatim>\<open>except\<close> clause then reads
  \<open>output_bucket\<close> to build \<open>outputLocation\<close>, and that read raises
  \<open>UnboundLocalError\<close>, which leaves the handler: no \<open>FAILED\<close> response is
  returned.
\<close>

theorem status_missing_bucket_raises:
  assumes "outputS3Bucket ev = None"
  shows "status_lambda_handler e ev w = (Inl (UnboundLocalError ''output_bucket''), w)"
  using assms
  by (simp add: status_lambda_handler_def dict_index_def status_except_def local_var_def)

text \<open>Witness for C1: the request \<^verbatim>\<open>{"jobId": "job1"}\<close>.\<close>

theorem status_missing_bucket_raises_witness:
  "outputS3Bucket (status_event\<lparr>outputS3Bucket := None\<rparr>) = None
   \<and> status_lambda_handler (demo_env None) (status_event\<lparr>outputS3Bucket := None\<rparr>) empty_world
       = (Inl (UnboundLocalError ''output_bucket''), empty_world)"
  using status_missing_bucket_raises [of "status_event\<lparr>outputS3Bucket := None\<rparr>" "demo_env None" empty_world]
  by simp

text \<open>
  Claim C6 (what the code does at a key that contains the job prefix twice).
  For job \<open>job1\<close> and the listed key \<open>converted/job1/converted/job1/a.html\<close>
  the handler reports the relative name \<open>a.html\<close>: \<^verbatim>\<open>str.replace\<close> removes
  every occurrence of the prefix.  Removing the leading prefix only would
  leave \<open>converted/job1/a.html\<close>.
\<close>

theorem status_replace_strips_inner_prefix:
  "fst (status_lambda_handler (demo_env (Some [''converted/job1/converted/job1/a.html'']))
          status_event empty_world)
     = Inr [(''jobId'', PStr ''job1''),
            (''status'', PStr ''COMPLETED''),
            (''outputLocation'', PStr ''s3://out/converted/job1/''),
            (''filesFound'', PList [PStr ''a.html''])]
   \<and> drop (length ''converted/job1/'') ''converted/job1/converted/job1/a.html''
       = ''converted/job1/a.html''"
  by (simp add: status_lambda_handler_def demo_env_def status_event_def empty_world_def
      dict_get_def dict_index_def classify_def endswith_def Let_def replace_nested_prefix)

text \<open>
  Claim C8.  The handler's result depends on the world only through storage,
  and the handler leaves storage and the local files as they were: a second
  invocation, run in the world the first one left, returns the same result,
  and no call that writes to storage is added to the calls issued.
\<close>

theorem status_idempotent_read_only:
  "fst (status_lambda_handler e ev (snd (status_lambda_handler e ev w)))
     = fst (status_lambda_handler e ev w)
   \<and> storage (snd (status_lambda_handler e ev w)) = storage w
   \<and> files (snd (status_lambda_handler e ev w)) = files w
   \<and> filter is_write (calls (snd (status_lambda_handler e ev w))) = filter is_write (calls w)"
  by (simp add: status_lambda_handler_def is_write_def Let_def
      split: sum.splits option.splits prod.splits)

text \<open>
  Claim C10.  When the listing returns the job prefix itself as a key (a
  folder marker), the empty string is an entry of \<open>filesFound\<close>; the empty
  string does not end in \<open>.html\<close>; and when the marker is the only key
  listed, \<open>filesFound\<close> is the one-element list of the empty string and the
  status is \<open>IN_PROGRESS\<close>.
\<close>

theorem status_folder_marker:
  fixes e ev w b keys
  defines "pre \<equiv> dict_get (outputS3Prefix ev) ''converted/'' @ dict_get (jobId ev) ''unknown'' @ ''/''"
  assumes bucket: "outputS3Bucket ev = Some b"
    and client: "boto3_client e = None"
    and listing: "list_objects_v2 e (storage w) b pre = Inr (Some keys)"
    and marker: "pre \<in> set keys"
  shows "\<exists>resp fs. fst (status_lambda_handler e ev w) = Inr resp
           \<and> map_of resp ''filesFound'' = Some (PList fs)
           \<and> PStr [] \<in> set fs
           \<and> \<not> endswith [] ''.html''
           \<and> (keys = [pre] \<longrightarrow>
                 fs = [PStr []] \<and> map_of resp ''status'' = Some (PStr ''IN_PROGRESS''))"
proof -
  have ne: "pre \<noteq> []" by (simp add: pre_def)
  have self: "py_replace pre pre [] = []" using ne by (rule py_replace_self)
  have mem: "PStr [] \<in> set (map PStr (map (\<lambda>k. py_replace k pre []) keys))"
    using marker self by force
  show ?thesis
    using bucket client listing mem self
    by (auto simp: status_lambda_handler_def dict_index_def Let_def pre_def[symmetric]
        classify_def endswith_def)
qed

text \<open>Witness for C10: the listing of job \<open>job1\<close> returns \<open>converted/job1/\<close> alone.\<close>

theorem status_folder_marker_witness:
  "outputS3Bucket status_event = Some ''out''
   \<and> ''converted/job1/'' \<in> set [''converted/job1/'']
   \<and> (\<exists>resp. fst (status_lambda_handler (demo_env (Some [''converted/job1/''])) status_event
                  empty_world) = Inr resp
          \<and> map_of resp ''filesFound'' = Some (PList [PStr []])
          \<and> map_of resp ''status'' = Some (PStr ''IN_PROGRESS''))"
  using status_folder_marker [where ev = status_event and b = "''out''"
      and e = "demo_env (Some [''converted/job1/''])" and w = empty_world
      and keys = "[''converted/job1/'']"]
  by (auto simp: demo_env_def status_event_def empty_world_def dict_get_def)

text \<open>
  When the request names the output bucket, a failure to create the client or
  to list the prefix is turned into the \<open>FAILED\<close> response, with the error's
  text and the job's output location; nothing is raised.
\<close>

theorem status_errors_become_failed:
  assumes bucket: "outputS3Bucket ev = Some b"
    and err: "boto3_client e = Some msg
              \<or> boto3_client e = None
                \<and> list_objects_v2 e (storage w) b
                     (dict_get (outputS3Prefix ev) ''converted/''
                        @ dict_get (jobId ev) ''unknown'' @ ''/'') = Inl msg"
  shows "fst (status_lambda_handler e ev w) =
           Inr [(''jobId'', PStr (dict_get (jobId ev) ''unknown'')),
                (''status'', PStr ''FAILED''),
                (''error'', PStr msg),
                (''outputLocation'',
                   PStr (''s3://'' @ b @ ''/'' @ dict_get (outputS3Prefix ev) ''converted/''
                           @ dict_get (jobId ev) ''unknown'' @ ''/''))]"
  using bucket err
  by (auto simp: status_lambda_handler_def dict_index_def status_except_def local_var_def Let_def)

text \<open>An environment in which the client cannot be created.\<close>

theorem status_errors_become_failed_witness:
  "outputS3Bucket status_event = Some ''out''
   \<and> boto3_client ((demo_env None)\<lparr>boto3_client := Some ''You must specify a region.''\<rparr>)
        = Some ''You must specify a region.''
   \<and> fst (status_lambda_handler
             ((demo_env None)\<lparr>boto3_client := Some ''You must specify a region.''\<rparr>)
             status_event empty_world)
       = Inr [(''jobId'', PStr ''job1''),
              (''status'', PStr ''FAILED''),
              (''error'', PStr ''You must specify a region.''),
              (''outputLocation'', PStr ''s3://out/converted/job1/'')]"
  using status_errors_become_failed [where ev = status_event and b = "''out''"
      and e = "(demo_env None)\<lparr>boto3_client := Some ''You must specify a region.''\<rparr>"
      and msg = "''You must specify a region.''" and w = empty_world]
  by (simp add: status_event_def dict_get_def)

section \<open>The conversion handler: results\<close>

text \<open>
  Claim C5.  A request without \<open>inputS3Bucket\<close> makes \<^verbatim>\<open>event['inputS3Bucket']\<close>
  raise \<open>KeyError\<close>; the handler returns (it raises nothing) the response
  with status \<open>FAILED\<close>, the error text \<^verbatim>\<open>'inputS3Bucket'\<close>, which is not
  empty, and \<open>inputLocation\<close> \<^verbatim>\<open>s3://<bucket>/<key>\<close> with the empty string for
  the absent bucket and for an absent key; the world is unchanged.
\<close>

theorem processor_missing_input_bucket:
  assumes "inputS3Bucket ev = None"
  shows "processor_lambda_handler e ev ctx w =
           (Inr [(''jobId'', PStr (dict_get (jobId ev) (''job-'' @ aws_request_id ctx))),
                 (''status'', PStr ''FAILED''),
                 (''error'', PStr (str_exn (KeyError ''inputS3Bucket''))),
                 (''inputLocation'', PStr (''s3://'' @ [] @ ''/'' @ dict_get (inputS3Key ev) []))],
            w)
         \<and> str_exn (KeyError ''inputS3Bucket'') \<noteq> []"
  using assms
  by (simp add: processor_lambda_handler_def dict_index_def processor_except_def dict_get_def)

text \<open>Witness for C5: the conversion request for \<open>a%20b.pdf\<close> with its input bucket removed.\<close>

theorem processor_missing_input_bucket_witness:
  "inputS3Bucket (conversion_event\<lparr>inputS3Bucket := None\<rparr>) = None
   \<and> processor_lambda_handler (demo_env None) (conversion_event\<lparr>inputS3Bucket := None\<rparr>)
        demo_context empty_world
       = (Inr [(''jobId'', PStr ''job1''),
               (''status'', PStr ''FAILED''),
               (''error'', PStr (CHR 0x27 # ''inputS3Bucket'' @ [CHR 0x27])),
               (''inputLocation'', PStr ''s3:///a%20b.pdf'')],
          empty_world)"
  using processor_missing_input_bucket [of "conversion_event\<lparr>inputS3Bucket := None\<rparr>"
      "demo_env None" demo_context empty_world]
  by (simp add: conversion_event_def dict_get_def)

text \<open>
  Claim C4.  For a request with its three required fields, when the client
  and the temporary file are created, the download finds the object and the
  upload is accepted, the handler returns \<open>COMPLETED\<close> with
  \<open>outputLocation\<close> \<^verbatim>\<open>s3://<outputS3Bucket>/<outputS3Prefix><jobId>/\<close>; storage
  changes at the one key \<^verbatim>\<open><outputS3Prefix><jobId>/converted.html\<close> of the output
  bucket, which now holds the request \<open>req\<close>: content type \<open>text/html\<close> and
  the metadata job id, source bucket, source key and request id; and that
  upload is the only writing call added.  Absent \<open>jobId\<close> and
  \<open>outputS3Prefix\<close> take their defaults.
\<close>

theorem processor_success:
  fixes e ev ctx w ib k ob p obj
  defines "job_id \<equiv> dict_get (jobId ev) (''job-'' @ aws_request_id ctx)"
  defines "pre \<equiv> dict_get (outputS3Prefix ev) ''converted/''"
  defines "req \<equiv>
     \<lparr>Bucket = ob, Key = pre @ job_id @ ''/converted.html'',
      Body = create_html_content (json_dumps e) job_id (unquote k) ib (length (Body obj))
               (dict_get (conversionOptions ev) (PDict [])) (aws_request_id ctx),
      ContentType = ''text/html'',
      Metadata = [(''job-id'', job_id), (''source-bucket'', ib), (''source-key'', unquote k),
                  (''conversion-timestamp'', aws_request_id ctx)]\<rparr>"
  assumes ib: "inputS3Bucket ev = Some ib" and key: "inputS3Key ev = Some k"
    and ob: "outputS3Bucket ev = Some ob" and client: "boto3_client e = None"
    and tmp: "named_temporary_file e (files w) = Inr p"
    and dl: "download_fault e ib (unquote k) = None"
    and obj: "storage w (ib, unquote k) = Some obj"
    and put: "put_fault e req = None"
  shows "\<exists>resp w'. processor_lambda_handler e ev ctx w = (Inr resp, w')
           \<and> map_of resp ''status'' = Some (PStr ''COMPLETED'')
           \<and> map_of resp ''outputLocation'' =
                 Some (PStr (''s3://'' @ ob @ ''/'' @ pre @ job_id @ ''/''))
           \<and> storage w' = (storage w)((ob, pre @ job_id @ ''/converted.html'') \<mapsto> req)
           \<and> filter is_write (calls w') = filter is_write (calls w) @ [PutObject req]"
proof -
  note run = processor_success_run [OF ib key ob client tmp dl obj
      put [unfolded req_def pre_def job_id_def], folded job_id_def pre_def, folded req_def]
  then obtain w' where eq: "processor_lambda_handler e ev ctx w =
        (Inr [(''jobId'', PStr job_id),
             (''status'', PStr ''COMPLETED''),
             (''outputLocation'', PStr (''s3://'' @ ob @ ''/'' @ pre @ job_id @ ''/'')),
             (''conversionResult'',
                PDict [(''html_path'', PStr (''s3://'' @ ob @ ''/'' @ pre @ job_id @ ''/converted.html'')),
                       (''output_files'', PList [PStr (pre @ job_id @ ''/converted.html'')]),
                       (''pdf_pages'', PInt 1),
                       (''images_extracted'', PInt 0),
                       (''processing_time_seconds'', PFloat 1)]),
             (''inputLocation'', PStr (''s3://'' @ ib @ ''/'' @ unquote k))], w')"
      and st: "storage w' = (storage w)((ob, pre @ job_id @ ''/converted.html'') \<mapsto> req)"
      and cs: "calls w' = calls w @ [DownloadFile ib (unquote k) p, PutObject req]"
    by blast
  have "filter is_write (calls w') = filter is_write (calls w) @ [PutObject req]"
    by (simp add: cs is_write_def)
  with eq st show ?thesis by simp
qed

text \<open>Witness for C4: the conversion request for \<open>a%20b.pdf\<close> where the object exists.\<close>

theorem processor_success_witness:
  "inputS3Bucket conversion_event = Some ''in''
   \<and> inputS3Key conversion_event = Some ''a%20b.pdf''
   \<and> storage stocked_world (''in'', unquote ''a%20b.pdf'') = Some pdf_object
   \<and> (\<exists>resp w' obj.
         processor_lambda_handler (demo_env None) conversion_event demo_context stocked_world
           = (Inr resp, w')
         \<and> map_of resp ''status'' = Some (PStr ''COMPLETED'')
         \<and> map_of resp ''outputLocation'' = Some (PStr ''s3://out/converted/job1/'')
         \<and> storage w' (''out'', ''converted/job1/converted.html'') = Some obj
         \<and> ContentType obj = ''text/html''
         \<and> Metadata obj = [(''job-id'', ''job1''), (''source-bucket'', ''in''),
                            (''source-key'', ''a b.pdf''), (''conversion-timestamp'', ''req-1'')])"
  using processor_success [where ev = conversion_event and e = "demo_env None"
      and ctx = demo_context and w = stocked_world and ib = "''in''" and k = "''a%20b.pdf''"
      and ob = "''out''" and p = "''/tmp/tmpk3x9.pdf''" and obj = pdf_object]
  by (auto simp: conversion_event_def demo_env_def demo_context_def stocked_world_def
      empty_world_def dict_get_def unquote_demo_key)

text \<open>
  Claim C7.  With \<open>inputS3Key = k\<close> in the request, every storage call the
  handler issues, on every path, works on the decoded key \<open>unquote k\<close> (the
  download reads it, the upload records it as \<open>source-key\<close>), and a
  \<open>COMPLETED\<close> response carries \<open>inputLocation\<close>
  \<^verbatim>\<open>s3://<inputS3Bucket>/<unquote k>\<close>.
\<close>

theorem processor_uses_decoded_key:
  assumes key: "inputS3Key ev = Some k"
  shows "(\<exists>cs. calls (snd (processor_lambda_handler e ev ctx w)) = calls w @ cs
            \<and> (\<forall>c \<in> set cs. source_key c = Some (unquote k)))
         \<and> (\<forall>resp. fst (processor_lambda_handler e ev ctx w) = Inr resp
               \<and> map_of resp ''status'' = Some (PStr ''COMPLETED'')
             \<longrightarrow> map_of resp ''inputLocation'' =
                   Some (PStr (''s3://'' @ dict_get (inputS3Bucket ev) [] @ ''/'' @ unquote k)))"
  using processor_new_calls [OF key] processor_completed_location [OF _ _ key]
  by blast

text \<open>
  Witness for C7: for the key \<open>a%20b.pdf\<close> the download and the upload work on
  \<open>a b.pdf\<close> and the response records \<^verbatim>\<open>s3://in/a b.pdf\<close>.
\<close>

theorem processor_uses_decoded_key_witness:
  "inputS3Key conversion_event = Some ''a%20b.pdf''
   \<and> unquote ''a%20b.pdf'' = ''a b.pdf''
   \<and> (\<exists>resp w'.
         processor_lambda_handler (demo_env None) conversion_event demo_context stocked_world
           = (Inr resp, w')
         \<and> map_of resp ''status'' = Some (PStr ''COMPLETED'')
         \<and> map_of resp ''inputLocation'' = Some (PStr ''s3://in/a b.pdf'')
         \<and> map source_key (calls w') = [Some ''a b.pdf'', Some ''a b.pdf''])"
proof -
  have key: "inputS3Key conversion_event = Some ''a%20b.pdf''"
    by (simp add: conversion_event_def)
  from demo_success_run obtain resp w'
    where run: "processor_lambda_handler (demo_env None) conversion_event demo_context
                  stocked_world = (Inr resp, w')"
      and st: "map_of resp ''status'' = Some (PStr ''COMPLETED'')"
      and cs: "map source_key (calls w') = [Some ''a b.pdf'', Some ''a b.pdf'']"
    by fastforce
  from processor_uses_decoded_key [OF key, of "demo_env None" demo_context stocked_world] run st
  have "map_of resp ''inputLocation'' =
          Some (PStr (''s3://'' @ dict_get (inputS3Bucket conversion_event) [] @ ''/''
                       @ unquote ''a%20b.pdf''))"
    by simp
  then have "map_of resp ''inputLocation'' = Some (PStr ''s3://in/a b.pdf'')"
    by (simp add: conversion_event_def dict_get_def unquote_demo_key)
  with key run st cs show ?thesis
    by (simp add: unquote_demo_key)
qed

text \<open>
  Claim C9.  A \<open>FAILED\<close> response carries \<open>inputLocation\<close> built from the
  request's \<open>inputS3Bucket\<close> and \<open>inputS3Key\<close> as supplied (the empty string
  when absent), with no decoding; so for a key that decoding changes it differs
  from the location \<^verbatim>\<open>s3://<bucket>/<unquote key>\<close> of a \<open>COMPLETED\<close> response.
\<close>

theorem processor_failure_location_raw:
  assumes run: "fst (processor_lambda_handler e ev ctx w) = Inr resp"
    and failed: "map_of resp ''status'' = Some (PStr ''FAILED'')"
  shows "map_of resp ''inputLocation'' =
            Some (PStr (''s3://'' @ dict_get (inputS3Bucket ev) [] @ ''/''
                         @ dict_get (inputS3Key ev) []))
         \<and> (\<forall>ib k. inputS3Bucket ev = Some ib \<and> inputS3Key ev = Some k \<and> unquote k \<noteq> k
               \<longrightarrow> map_of resp ''inputLocation''
                     \<noteq> Some (PStr (''s3://'' @ ib @ ''/'' @ unquote k)))"
proof -
  from processor_failed_response [OF run failed]
  obtain x where "resp = processor_except x (dict_get (jobId ev) (''job-'' @ aws_request_id ctx)) ev"
    by blast
  then show ?thesis
    by (auto simp: processor_except_def dict_get_def)
qed

text \<open>
  Witness for C9: the request for \<open>a%20b.pdf\<close> where the object is missing fails
  with \<open>inputLocation\<close> \<^verbatim>\<open>s3://in/a%20b.pdf\<close>.
\<close>

theorem processor_failure_location_raw_witness:
  "(\<exists>resp. fst (processor_lambda_handler (demo_env None) conversion_event demo_context empty_world)
             = Inr resp
          \<and> map_of resp ''status'' = Some (PStr ''FAILED'')
          \<and> map_of resp ''inputLocation'' = Some (PStr ''s3://in/a%20b.pdf''))
   \<and> unquote ''a%20b.pdf'' = ''a b.pdf''
   \<and> ''s3://in/a%20b.pdf'' \<noteq> ''s3://in/'' @ unquote ''a%20b.pdf''"
  using processor_failure_location_raw [where ev = conversion_event and e = "demo_env None"
      and ctx = demo_context and w = empty_world
      and resp = "[(''jobId'', PStr ''job1''), (''status'', PStr ''FAILED''),
             (''error'', PStr ''Failed to download PDF: An error occurred (404) when calling the HeadObject operation: Not Found''),
             (''inputLocation'', PStr ''s3://in/a%20b.pdf'')]"]
  by (simp add: demo_failed_run unquote_demo_key) (simp add: conversion_event_def dict_get_def)

text \<open>
  Claim C2 (what the code does on its error paths).  Once the temporary file
  has been created at path \<open>p\<close>, every run that ends in a \<open>FAILED\<close> response
  leaves a file at \<open>p\<close>: \<^verbatim>\<open>os.unlink\<close> stands after the upload inside the
  \<^verbatim>\<open>try\<close> block, the \<^verbatim>\<open>except\<close> clause does not remove the file, and the file
  was created with \<^verbatim>\<open>delete=False\<close>.
\<close>

theorem processor_failure_keeps_temp_file:
  assumes ib: "inputS3Bucket ev = Some ib" and key: "inputS3Key ev = Some k"
    and ob: "outputS3Bucket ev = Some ob" and client: "boto3_client e = None"
    and tmp: "named_temporary_file e (files w) = Inr p"
    and run: "fst (processor_lambda_handler e ev ctx w) = Inr resp"
    and failed: "map_of resp ''status'' = Some (PStr ''FAILED'')"
  shows "files (snd (processor_lambda_handler e ev ctx w)) p \<noteq> None"
  using assms
  by (auto simp: processor_lambda_handler_def dict_index_def download_pdf_def download_file_def
      getsize_def convert_and_upload_def put_object_def Let_def
      split: sum.splits option.splits prod.splits)

text \<open>
  Witness for C2: the request for \<open>a%20b.pdf\<close> where the object is missing; the
  download fails and the temporary file, absent before, exists afterwards.
\<close>

theorem processor_failure_keeps_temp_file_witness:
  "named_temporary_file (demo_env None) (files empty_world) = Inr ''/tmp/tmpk3x9.pdf''
   \<and> files empty_world ''/tmp/tmpk3x9.pdf'' = None
   \<and> (\<exists>resp. fst (processor_lambda_handler (demo_env None) conversion_event demo_context empty_world)
               = Inr resp
          \<and> map_of resp ''status'' = Some (PStr ''FAILED''))
   \<and> files (snd (processor_lambda_handler (demo_env None) conversion_event demo_context empty_world))
        ''/tmp/tmpk3x9.pdf'' \<noteq> None"
  using processor_failure_keeps_temp_file [where ev = conversion_event and e = "demo_env None"
      and ctx = demo_context and w = empty_world and ib = "''in''" and k = "''a%20b.pdf''"
      and ob = "''out''" and p = "''/tmp/tmpk3x9.pdf''"
      and resp = "[(''jobId'', PStr ''job1''), (''status'', PStr ''FAILED''),
             (''error'', PStr ''Failed to download PDF: An error occurred (404) when calling the HeadObject operation: Not Found''),
             (''inputLocation'', PStr ''s3://in/a%20b.pdf'')]"]
  by (simp add: demo_failed_run) (simp add: conversion_event_def demo_env_def empty_world_def)

text \<open>
  On the path where every step succeeds the temporary file is removed before
  the handler returns, unless \<^verbatim>\<open>os.unlink\<close> fails; that failure is swallowed:
  the response is \<open>COMPLETED\<close> all the same and the file stays.
\<close>

theorem processor_success_removes_temp_file:
  fixes e ev ctx w ib k ob p obj
  defines "job_id \<equiv> dict_get (jobId ev) (''job-'' @ aws_request_id ctx)"
  defines "pre \<equiv> dict_get (outputS3Prefix ev) ''converted/''"
  defines "req \<equiv>
     \<lparr>Bucket = ob, Key = pre @ job_id @ ''/converted.html'',
      Body = create_html_content (json_dumps e) job_id (unquote k) ib (length (Body obj))
               (dict_get (conversionOptions ev) (PDict [])) (aws_request_id ctx),
      ContentType = ''text/html'',
      Metadata = [(''job-id'', job_id), (''source-bucket'', ib), (''source-key'', unquote k),
                  (''conversion-timestamp'', aws_request_id ctx)]\<rparr>"
  assumes ib: "inputS3Bucket ev = Some ib" and key: "inputS3Key ev = Some k"
    and ob: "outputS3Bucket ev = Some ob" and client: "boto3_client e = None"
    and tmp: "named_temporary_file e (files w) = Inr p"
    and dl: "download_fault e ib (unquote k) = None"
    and obj: "storage w (ib, unquote k) = Some obj"
    and put: "put_fault e req = None"
  shows "\<exists>resp. fst (processor_lambda_handler e ev ctx w) = Inr resp
           \<and> map_of resp ''status'' = Some (PStr ''COMPLETED'')
           \<and> files (snd (processor_lambda_handler e ev ctx w)) p =
                (if unlink_fault e p then Some (Body obj) else None)"
proof -
  note run = processor_success_run [OF ib key ob client tmp dl obj
      put [unfolded req_def pre_def job_id_def]]
  then obtain resp w' where eq: "processor_lambda_handler e ev ctx w = (Inr resp, w')"
      and st: "map_of resp ''status'' = Some (PStr ''COMPLETED'')"
      and fs: "files w' = (if unlink_fault e p then (files w)(p \<mapsto> Body obj) else (files w)(p := None))"
    by force
  then show ?thesis by simp
qed

text \<open>The conversion request for \<open>a%20b.pdf\<close> where the object exists: the
  temporary file is gone afterwards.\<close>

theorem processor_success_removes_temp_file_witness:
  "storage stocked_world (''in'', unquote ''a%20b.pdf'') = Some pdf_object
   \<and> \<not> unlink_fault (demo_env None) ''/tmp/tmpk3x9.pdf''
   \<and> (\<exists>resp. fst (processor_lambda_handler (demo_env None) conversion_event demo_context
                   stocked_world) = Inr resp
          \<and> map_of resp ''status'' = Some (PStr ''COMPLETED''))
   \<and> files (snd (processor_lambda_handler (demo_env None) conversion_event demo_context
                   stocked_world)) ''/tmp/tmpk3x9.pdf'' = None"
  using processor_success_removes_temp_file [where ev = conversion_event and e = "demo_env None"
      and ctx = demo_context and w = stocked_world and ib = "''in''" and k = "''a%20b.pdf''"
      and ob = "''out''" and p = "''/tmp/tmpk3x9.pdf''" and obj = pdf_object]
  by (auto simp: conversion_event_def demo_env_def demo_context_def stocked_world_def
      empty_world_def dict_get_def unquote_demo_key)

end
